theory Spec2Isabelle
  imports Main
begin

section \<open>The flatblock template tags\<close>

text \<open>
  A shallow embedding of \<^verbatim>\<open>flatblocks/templatetags/flatblock_tags.py\<close>: the argument
  parser \<^verbatim>\<open>BasicFlatBlockWrapper.prepare\<close>, the two tag wrappers, the constructor of
  \<^verbatim>\<open>FlatBlockNode\<close> and \<^verbatim>\<open>FlatBlockNode.render\<close>.

  Exceptions are values: every function that can raise returns \<open>error + 'a\<close> with
  \<open>Inl\<close> for the exception. The cache, the datastore and the template engine are
  collaborators outside the module: the cache and the datastore are maps in a
  \<open>world\<close> record together with the list of calls issued so far, the engine and the
  settings are fields of an \<open>env\<close> record, the interpreter's \<^verbatim>\<open>int(str)\<close> is a
  parameter \<open>conv\<close> of the parser and the field \<open>py_int\<close> of \<open>env\<close>, and the
  engine's check of a variable name, made when a \<^verbatim>\<open>template.Variable\<close> is built, is a
  parameter \<open>mkvar\<close> of the node constructor.
\<close>

subsection \<open>Errors and values\<close>

text \<open>
  The two \<^verbatim>\<open>TemplateSyntaxError\<close> messages of \<^verbatim>\<open>prepare\<close>, each carrying the tag name
  that the source formats into the message:
  \<open>TwoArguments\<close> is "tag with two arguments has to include the cache timeout and the
  evaluated flag", \<open>ArgumentCount\<close> is "tag should have between 1 and 5 arguments".
  \<open>UnderscoreName\<close> is the message of the template engine, "Variables and attributes
  may not begin with underscores", with the name it rejects.
\<close>

datatype syntax_msg = TwoArguments string | ArgumentCount string | UnderscoreName string

datatype error =
    IndexError
  | ValueError
  | TypeError
  | TemplateSyntaxError syntax_msg
  | DoesNotExist
  | VariableDoesNotExist
  | TemplateDoesNotExist

text \<open>
  The values \<^verbatim>\<open>cache_time\<close> takes: Python's \<^verbatim>\<open>None\<close>, an integer, or a string (the
  raw token before conversion, and the string \<^verbatim>\<open>'None'\<close> after it).
\<close>

datatype cache_time = CT_None | CT_Int int | CT_Str string

definition and_then :: "error + 'a \<Rightarrow> ('a \<Rightarrow> error + 'b) \<Rightarrow> error + 'b" where
  "and_then m f = (case m of Inl e \<Rightarrow> Inl e | Inr x \<Rightarrow> f x)"

text \<open>
  \<^verbatim>\<open>int(self.cache_time)\<close>: the identity on an integer, the conversion \<open>conv\<close> on a string
  (\<^verbatim>\<open>ValueError\<close> when the string is no numeral), \<^verbatim>\<open>TypeError\<close> on \<^verbatim>\<open>None\<close>.
\<close>

definition to_int :: "(string \<Rightarrow> int option) \<Rightarrow> cache_time \<Rightarrow> error + int" where
  "to_int conv ct =
     (case ct of
        CT_None \<Rightarrow> Inl TypeError
      | CT_Int n \<Rightarrow> Inr n
      | CT_Str s \<Rightarrow> (case conv s of None \<Rightarrow> Inl ValueError | Some n \<Rightarrow> Inr n))"

text \<open>
  An instance of the conversion for concrete evaluations: ASCII decimal numerals with an
  optional sign, on which every Python version agrees.
\<close>

definition digit_val :: "char \<Rightarrow> nat option" where
  "digit_val c =
     (let n = (of_char c :: nat) in if 48 \<le> n \<and> n \<le> 57 then Some (n - 48) else None)"

fun digits_val :: "nat \<Rightarrow> string \<Rightarrow> nat option" where
  "digits_val acc [] = Some acc"
| "digits_val acc (c # cs) =
     (case digit_val c of None \<Rightarrow> None | Some d \<Rightarrow> digits_val (10 * acc + d) cs)"

definition dec_int :: "string \<Rightarrow> int option" where
  "dec_int s =
     (case s of
        [] \<Rightarrow> None
      | c # cs \<Rightarrow>
          if c = CHR ''-'' then (if cs = [] then None else map_option (\<lambda>n. - int n) (digits_val 0 cs))
          else if c = CHR ''+'' then (if cs = [] then None else map_option int (digits_val 0 cs))
          else map_option int (digits_val 0 s))"

subsection \<open>The argument parser\<close>

text \<open>The attributes \<^verbatim>\<open>prepare\<close> sets on the wrapper object.\<close>

record wrapper =
  is_variable :: bool
  tpl_is_variable :: bool
  slug :: string
  cache_time :: cache_time
  tpl_name :: "string option"
  evaluated :: bool

text \<open>
  Lines 83 to 121, the branch on \<^verbatim>\<open>len(args)\<close>. A timeout token is stored as it is
  read, a string; the conversion comes last in \<^verbatim>\<open>prepare\<close>.
\<close>

fun parse_args :: "string \<Rightarrow> string list \<Rightarrow> wrapper \<Rightarrow> error + wrapper" where
  "parse_args tag_name [] w = Inr w"
| "parse_args tag_name [a0] w =
     (if a0 = ''evaluated'' then Inr (w\<lparr>wrapper.evaluated := True\<rparr>)
      else Inr (w\<lparr>wrapper.cache_time := CT_Str a0\<rparr>))"
| "parse_args tag_name [a0, a1] w =
     (if a0 \<noteq> ''using'' then
        (if a1 \<noteq> ''evaluated'' then Inl (TemplateSyntaxError (TwoArguments tag_name))
         else Inr (w\<lparr>wrapper.cache_time := CT_Str a0, wrapper.evaluated := True\<rparr>))
      else Inr (w\<lparr>wrapper.tpl_name := Some a1\<rparr>))"
| "parse_args tag_name [a0, a1, a2] w =
     (let w' = (if a0 = ''evaluated'' then w\<lparr>wrapper.evaluated := True\<rparr>
                else w\<lparr>wrapper.cache_time := CT_Str a0\<rparr>)
      in Inr (w'\<lparr>wrapper.tpl_name := Some a2\<rparr>))"
| "parse_args tag_name [a0, a1, a2, a3] w =
     Inr (w\<lparr>wrapper.cache_time := CT_Str a0, wrapper.evaluated := True,
            wrapper.tpl_name := Some a3\<rparr>)"
| "parse_args tag_name (a0 # a1 # a2 # a3 # a4 # args) w =
     Inl (TemplateSyntaxError (ArgumentCount tag_name))"

text \<open>
  The test \<^verbatim>\<open>s[0] == s[-1] and s[0] in ('"', "'")\<close> of lines 123 and 129. Indexing the
  empty string raises \<^verbatim>\<open>IndexError\<close>.
\<close>

definition quoted :: "string \<Rightarrow> bool" where
  "quoted s = (hd s = last s \<and> (hd s = CHR 0x22 \<or> hd s = CHR 0x27))"

definition properly_quoted :: "string \<Rightarrow> error + bool" where
  "properly_quoted s = (if s = [] then Inl IndexError else Inr (quoted s))"

text \<open>The slice \<^verbatim>\<open>s[1:-1]\<close>.\<close>

definition strip_ends :: "string \<Rightarrow> string" where
  "strip_ends s = butlast (tl s)"

text \<open>Lines 122 to 126.\<close>

definition clean_slug :: "wrapper \<Rightarrow> error + wrapper" where
  "clean_slug w =
     and_then (properly_quoted (wrapper.slug w)) (\<lambda>q.
       if \<not> q then Inr (w\<lparr>wrapper.is_variable := True\<rparr>)
       else Inr (w\<lparr>wrapper.slug := strip_ends (wrapper.slug w)\<rparr>))"

text \<open>Lines 127 to 133.\<close>

definition clean_tpl_name :: "wrapper \<Rightarrow> error + wrapper" where
  "clean_tpl_name w =
     (case wrapper.tpl_name w of
        None \<Rightarrow> Inr w
      | Some t \<Rightarrow>
          and_then (properly_quoted t) (\<lambda>q.
            if \<not> q then Inr (w\<lparr>wrapper.tpl_is_variable := True\<rparr>)
            else Inr (w\<lparr>wrapper.tpl_name := Some (strip_ends t)\<rparr>)))"

text \<open>Lines 134 to 135.\<close>

definition convert_cache_time :: "(string \<Rightarrow> int option) \<Rightarrow> wrapper \<Rightarrow> error + wrapper" where
  "convert_cache_time conv w =
     (if wrapper.cache_time w \<noteq> CT_None \<and> wrapper.cache_time w \<noteq> CT_Str ''None'' then
        and_then (to_int conv (wrapper.cache_time w)) (\<lambda>n.
          Inr (w\<lparr>wrapper.cache_time := CT_Int n\<rparr>))
      else Inr w)"

text \<open>
  \<^verbatim>\<open>prepare\<close>. The argument is the list \<^verbatim>\<open>token.split_contents()\<close>. Line 81 reads
  \<^verbatim>\<open>tokens[0]\<close> and \<^verbatim>\<open>tokens[1]\<close>, which raises \<^verbatim>\<open>IndexError\<close> on a list shorter than
  two. The attributes are reset at every call, so the result depends on the tokens only.
\<close>

definition prepare :: "(string \<Rightarrow> int option) \<Rightarrow> string list \<Rightarrow> error + wrapper" where
  "prepare conv tokens =
     (case tokens of
        [] \<Rightarrow> Inl IndexError
      | [tag_name] \<Rightarrow> Inl IndexError
      | tag_name # s # args \<Rightarrow>
          and_then (parse_args tag_name args
                      \<lparr>wrapper.is_variable = False, wrapper.tpl_is_variable = False,
                       wrapper.slug = s, wrapper.cache_time = CT_Int 0,
                       wrapper.tpl_name = None, wrapper.evaluated = False\<rparr>) (\<lambda>w1.
          and_then (clean_slug w1) (\<lambda>w2.
          and_then (clean_tpl_name w2) (\<lambda>w3.
          convert_cache_time conv w3))))"


subsection \<open>The node\<close>

text \<open>
  \<^verbatim>\<open>self.template_name\<close> is either a string or a \<^verbatim>\<open>template.Variable\<close> wrapping the
  name; what the variable stands for is found at render time.
\<close>

datatype template_ref = TemplateName string | Variable string

record node =
  template_name :: template_ref
  slug :: string
  is_variable :: bool
  cache_time :: cache_time
  with_template :: bool
  evaluated :: bool

text \<open>
  Lines 159 to 165 of \<^verbatim>\<open>FlatBlockNode.__init__\<close>. The constructor call
  \<^verbatim>\<open>template.Variable(template_name)\<close> of line 163 can raise: \<open>mkvar t\<close> is the
  exception it raises on the name \<open>t\<close>, if any (the engine refuses a name that begins
  with an underscore with a \<^verbatim>\<open>TemplateSyntaxError\<close>).
\<close>

definition init_template_name ::
  "(string \<Rightarrow> error option) \<Rightarrow> string option \<Rightarrow> bool \<Rightarrow> error + template_ref" where
  "init_template_name mkvar tpl tpl_is_var =
     (case tpl of
        None \<Rightarrow> Inr (TemplateName ''flatblocks/flatblock.html'')
      | Some t \<Rightarrow>
          if tpl_is_var then (case mkvar t of Some e \<Rightarrow> Inl e | None \<Rightarrow> Inr (Variable t))
          else Inr (TemplateName t))"

text \<open>
  \<^verbatim>\<open>FlatBlockNode.__init__\<close>, with the keyword arguments in the order of the signature:
  slug, is_variable, cache_time, with_template, template_name, tpl_is_variable, evaluated.
  An exception of line 163 leaves the constructor, and no node is built.
\<close>

definition FlatBlockNode ::
  "(string \<Rightarrow> error option) \<Rightarrow>
   string \<Rightarrow> bool \<Rightarrow> cache_time \<Rightarrow> bool \<Rightarrow> string option \<Rightarrow> bool \<Rightarrow> bool \<Rightarrow> error + node" where
  "FlatBlockNode mkvar s is_var ct with_tpl tpl tpl_is_var ev =
     and_then (init_template_name mkvar tpl tpl_is_var) (\<lambda>tn.
       Inr \<lparr>node.template_name = tn,
            node.slug = s,
            node.is_variable = is_var,
            node.cache_time = ct,
            node.with_template = with_tpl,
            node.evaluated = ev\<rparr>)"

text \<open>\<^verbatim>\<open>BasicFlatBlockWrapper.__call__\<close>, registered as the tag \<^verbatim>\<open>flatblock\<close>.\<close>

definition do_get_flatblock ::
  "(string \<Rightarrow> int option) \<Rightarrow> (string \<Rightarrow> error option) \<Rightarrow> string list \<Rightarrow> error + node" where
  "do_get_flatblock conv mkvar tokens =
     and_then (prepare conv tokens) (\<lambda>w.
       FlatBlockNode mkvar (wrapper.slug w) (wrapper.is_variable w) (wrapper.cache_time w)
         True (wrapper.tpl_name w) (wrapper.tpl_is_variable w) (wrapper.evaluated w))"

text \<open>\<^verbatim>\<open>PlainFlatBlockWrapper.__call__\<close>, registered as the tag \<^verbatim>\<open>plain_flatblock\<close>.\<close>

definition do_plain_flatblock ::
  "(string \<Rightarrow> int option) \<Rightarrow> (string \<Rightarrow> error option) \<Rightarrow> string list \<Rightarrow> error + node" where
  "do_plain_flatblock conv mkvar tokens =
     and_then (prepare conv tokens) (\<lambda>w.
       FlatBlockNode mkvar (wrapper.slug w) (wrapper.is_variable w) (wrapper.cache_time w)
         False None False (wrapper.evaluated w))"

subsection \<open>The collaborators\<close>

text \<open>
  Modelled from the spec: the content record, whose model class is not among the sources,
  "a simple record with slug/title/content/header fields". \<open>raw_content\<close> and
  \<open>raw_header\<close> are the attributes \<^verbatim>\<open>render\<close> adds to the object; \<open>None\<close> is the
  attribute not set.
\<close>

record flatblock =
  slug :: string
  title :: string
  header :: string
  content :: string
  raw_content :: "string option"
  raw_header :: "string option"

text \<open>
  A render context is a stack of layers, each binding names to values; the values this
  module meets are strings and content records. \<open>top_layer\<close> is the layer pushed last
  and \<open>lower_layers\<close> lists the ones under it, from the next one down. The engine's own
  bottom layer with the built-in names is left out, and a context has at least one layer
  above it.
\<close>

datatype pyval = PyStr string | PyFlatBlock flatblock

type_synonym layer = "string \<rightharpoonup> pyval"

record render_context =
  top_layer :: layer
  lower_layers :: "layer list"

text \<open>\<^verbatim>\<open>template.Context(d)\<close> on a dictionary.\<close>

definition Context :: "layer \<Rightarrow> render_context" where
  "Context d = \<lparr>top_layer = d, lower_layers = []\<rparr>"

text \<open>\<^verbatim>\<open>c.update(d)\<close> on a dictionary: the dictionary becomes the top layer.\<close>

definition push_layer :: "layer \<Rightarrow> render_context \<Rightarrow> render_context" where
  "push_layer d c = \<lparr>top_layer = d, lower_layers = top_layer c # lower_layers c\<rparr>"

text \<open>
  \<^verbatim>\<open>c.update(other)\<close> on another context, as Django 1.9 and later do it: the layer
  pushed is \<^verbatim>\<open>other.dicts[1:].pop()\<close>, the top layer of the other context alone. (On a
  context with no layer above the built-ins, which \<open>render_context\<close> leaves out, that
  expression raises \<^verbatim>\<open>IndexError\<close>.)
\<close>

definition update_context :: "render_context \<Rightarrow> render_context \<Rightarrow> render_context" where
  "update_context c other = push_layer (top_layer other) c"

text \<open>The value a context gives a name: that of the topmost layer that binds it.\<close>

fun layers_get :: "layer list \<Rightarrow> string \<Rightarrow> pyval option" where
  "layers_get [] k = None"
| "layers_get (l # ls) k = (case l k of Some v \<Rightarrow> Some v | None \<Rightarrow> layers_get ls k)"

definition context_get :: "render_context \<Rightarrow> string \<Rightarrow> pyval option" where
  "context_get c k = layers_get (top_layer c # lower_layers c) k"

text \<open>The calls issued to the cache, the datastore and the template engine.\<close>

datatype event =
    CacheGet string
  | CacheSet string flatblock "int option"
  | DbGet string
  | DbGetOrCreate string string
  | TemplateEval string
  | GetTemplate string

record world =
  cache :: "string \<rightharpoonup> flatblock"
  db :: "string \<rightharpoonup> flatblock"
  calls :: "event list"

text \<open>
  The settings, the interpreter's \<^verbatim>\<open>int(str)\<close> and the template engine.
  \<open>blank_block\<close> is a record with the field defaults of the model class.
  \<open>resolve v c\<close> is \<^verbatim>\<open>template.Variable(v).resolve(c)\<close>; slugs and template names are
  strings, so it returns a string or raises.
  \<open>template_render s c\<close> is \<^verbatim>\<open>template.Template(s).render(c)\<close> and
  \<open>loader_render t c\<close> is \<^verbatim>\<open>loader.get_template(t).render(c)\<close>. The engine is a
  function of the template and the context.
\<close>

record env =
  CACHE_PREFIX :: string
  AUTOCREATE_STATIC_BLOCKS :: bool
  py_int :: "string \<Rightarrow> int option"
  blank_block :: flatblock
  resolve :: "string \<Rightarrow> render_context \<Rightarrow> error + string"
  template_render :: "string \<Rightarrow> render_context \<Rightarrow> error + string"
  loader_render :: "string \<Rightarrow> render_context \<Rightarrow> error + string"

text \<open>\<^verbatim>\<open>cache.get(key)\<close>: the stored record, or \<^verbatim>\<open>None\<close>.\<close>

definition cache_get :: "string \<Rightarrow> world \<Rightarrow> flatblock option \<times> world" where
  "cache_get key w = (cache w key, w\<lparr>calls := calls w @ [CacheGet key]\<rparr>)"

text \<open>\<^verbatim>\<open>cache.set(key, value)\<close> with \<open>None\<close> and \<^verbatim>\<open>cache.set(key, value, t)\<close> with
  \<open>Some t\<close>.\<close>

definition cache_set :: "string \<Rightarrow> flatblock \<Rightarrow> int option \<Rightarrow> world \<Rightarrow> world" where
  "cache_set key fb timeout w =
     w\<lparr>cache := (cache w)(key \<mapsto> fb), calls := calls w @ [CacheSet key fb timeout]\<rparr>"

text \<open>\<^verbatim>\<open>FlatBlock.objects.get(slug=s)\<close>; the slug is a unique key.\<close>

definition objects_get :: "string \<Rightarrow> world \<Rightarrow> (error + flatblock) \<times> world" where
  "objects_get s w =
     ((case db w s of None \<Rightarrow> Inl DoesNotExist | Some fb \<Rightarrow> Inr fb),
      w\<lparr>calls := calls w @ [DbGet s]\<rparr>)"

text \<open>\<^verbatim>\<open>FlatBlock.objects.get_or_create(slug=s, defaults={'content': c})\<close>: the stored
  record, or a new one that is saved.\<close>

definition objects_get_or_create ::
  "flatblock \<Rightarrow> string \<Rightarrow> string \<Rightarrow> world \<Rightarrow> (flatblock \<times> bool) \<times> world" where
  "objects_get_or_create blank s c w =
     (case db w s of
        Some fb \<Rightarrow> ((fb, False), w\<lparr>calls := calls w @ [DbGetOrCreate s c]\<rparr>)
      | None \<Rightarrow>
          (let fb = blank\<lparr>flatblock.slug := s, flatblock.content := c\<rparr>
           in ((fb, True), w\<lparr>db := (db w)(s \<mapsto> fb), calls := calls w @ [DbGetOrCreate s c]\<rparr>)))"

subsection \<open>Rendering\<close>

text \<open>Lines 173 to 176.\<close>

definition real_slug :: "env \<Rightarrow> node \<Rightarrow> render_context \<Rightarrow> error + string" where
  "real_slug E n c =
     (if node.is_variable n then resolve E (node.slug n) c else Inr (node.slug n))"

text \<open>Lines 177 to 180.\<close>

definition real_template :: "env \<Rightarrow> node \<Rightarrow> render_context \<Rightarrow> error + string" where
  "real_template E n c =
     (case node.template_name n of
        Variable v \<Rightarrow> resolve E v c
      | TemplateName t \<Rightarrow> Inr t)"

text \<open>Lines 197 to 203: the read from the datastore.\<close>

definition fetch :: "env \<Rightarrow> node \<Rightarrow> string \<Rightarrow> world \<Rightarrow> (error + flatblock) \<times> world" where
  "fetch E n rs w =
     (if node.is_variable n \<or> \<not> AUTOCREATE_STATIC_BLOCKS E then objects_get rs w
      else (case objects_get_or_create (blank_block E) rs rs w of
              ((fb, created), w') \<Rightarrow> (Inr fb, w')))"

text \<open>
  Lines 187 to 214: the cache read, the datastore read on a miss, and the write back to
  the cache. The comparison \<^verbatim>\<open>self.cache_time != 0\<close> is true of \<^verbatim>\<open>None\<close> and of every
  string. The \<^verbatim>\<open>logger.debug\<close> calls are left out.
\<close>

definition lookup :: "env \<Rightarrow> node \<Rightarrow> string \<Rightarrow> world \<Rightarrow> (error + flatblock) \<times> world" where
  "lookup E n rs w =
     (let cache_key = CACHE_PREFIX E @ rs;
          (cached, w1) = (if node.cache_time n \<noteq> CT_Int 0 then cache_get cache_key w
                          else (None, w))
      in case cached of
           Some fb \<Rightarrow> (Inr fb, w1)
         | None \<Rightarrow>
             (case fetch E n rs w1 of
                (Inl e, w2) \<Rightarrow> (Inl e, w2)
              | (Inr fb, w2) \<Rightarrow>
                  if node.cache_time n \<noteq> CT_Int 0 then
                    (if node.cache_time n = CT_None \<or> node.cache_time n = CT_Str ''None''
                     then (Inr fb, cache_set cache_key fb None w2)
                     else (case to_int (py_int E) (node.cache_time n) of
                             Inl e \<Rightarrow> (Inl e, w2)
                           | Inr t \<Rightarrow> (Inr fb, cache_set cache_key fb (Some t) w2)))
                  else (Inr fb, w2)))"

text \<open>\<^verbatim>\<open>FlatBlockNode._evaluate\<close>.\<close>

definition evaluate :: "env \<Rightarrow> string \<Rightarrow> render_context \<Rightarrow> world \<Rightarrow> (error + string) \<times> world" where
  "evaluate E s c w = (template_render E s c, w\<lparr>calls := calls w @ [TemplateEval s]\<rparr>)"

text \<open>Lines 216 to 220, the body of \<^verbatim>\<open>if self.evaluated\<close>.\<close>

definition evaluate_fields ::
  "env \<Rightarrow> render_context \<Rightarrow> flatblock \<Rightarrow> world \<Rightarrow> (error + flatblock) \<times> world" where
  "evaluate_fields E c fb w =
     (let fb1 = fb\<lparr>flatblock.raw_content := Some (flatblock.content fb)\<rparr>;
          fb2 = fb1\<lparr>flatblock.raw_header := Some (flatblock.header fb1)\<rparr>
      in case evaluate E (flatblock.content fb2) c w of
           (Inl e, w1) \<Rightarrow> (Inl e, w1)
         | (Inr x, w1) \<Rightarrow>
             (let fb3 = fb2\<lparr>flatblock.content := x\<rparr>
              in case evaluate E (flatblock.header fb3) c w1 of
                   (Inl e, w2) \<Rightarrow> (Inl e, w2)
                 | (Inr y, w2) \<Rightarrow> (Inr (fb3\<lparr>flatblock.header := y\<rparr>), w2)))"

text \<open>
  Lines 222 to 227. \<open>new_ctx\<close> is the fresh context of lines 184 and 185,
  \<^verbatim>\<open>template.Context({})\<close> updated with the enclosing context, then updated at line 224
  with the record under the name \<^verbatim>\<open>flatblock\<close>.
\<close>

definition render_output ::
  "env \<Rightarrow> node \<Rightarrow> render_context \<Rightarrow> string \<Rightarrow> flatblock \<Rightarrow> world \<Rightarrow> (error + string) \<times> world" where
  "render_output E n c rt fb w =
     (if node.with_template n then
        (let new_ctx = update_context (Context Map.empty) c;
             new_ctx' = push_layer [''flatblock'' \<mapsto> PyFlatBlock fb] new_ctx
         in (loader_render E rt new_ctx', w\<lparr>calls := calls w @ [GetTemplate rt]\<rparr>))
      else (Inr (flatblock.content fb), w))"

text \<open>
  Lines 187 to 220: the record held by the local variable \<^verbatim>\<open>flatblock\<close> when the
  output step is reached.
\<close>

definition resolved_record ::
  "env \<Rightarrow> node \<Rightarrow> render_context \<Rightarrow> string \<Rightarrow> world \<Rightarrow> (error + flatblock) \<times> world" where
  "resolved_record E n c rs w =
     (case lookup E n rs w of
        (Inl e, w1) \<Rightarrow> (Inl e, w1)
      | (Inr fb, w1) \<Rightarrow>
          if node.evaluated n then evaluate_fields E c fb w1 else (Inr fb, w1))"

text \<open>The body of the \<^verbatim>\<open>try\<close> statement, lines 187 to 227.\<close>

definition try_body ::
  "env \<Rightarrow> node \<Rightarrow> render_context \<Rightarrow> string \<Rightarrow> string \<Rightarrow> world \<Rightarrow> (error + string) \<times> world" where
  "try_body E n c rs rt w =
     (case resolved_record E n c rs w of
        (Inl e, w2) \<Rightarrow> (Inl e, w2)
      | (Inr fb, w2) \<Rightarrow> render_output E n c rt fb w2)"

text \<open>
  \<^verbatim>\<open>FlatBlockNode.render\<close>. The two names are resolved before the \<^verbatim>\<open>try\<close>, so an error
  there leaves the function; inside it \<^verbatim>\<open>FlatBlock.DoesNotExist\<close> becomes the empty
  string and every other error leaves the function.
\<close>

definition render :: "env \<Rightarrow> node \<Rightarrow> render_context \<Rightarrow> world \<Rightarrow> (error + string) \<times> world" where
  "render E n c w =
     (case real_slug E n c of
        Inl e \<Rightarrow> (Inl e, w)
      | Inr rs \<Rightarrow>
          (case real_template E n c of
             Inl e \<Rightarrow> (Inl e, w)
           | Inr rt \<Rightarrow>
               (case try_body E n c rs rt w of
                  (Inl e, w') \<Rightarrow> (if e = DoesNotExist then Inr [] else Inl e, w')
                | (Inr out, w') \<Rightarrow> (Inr out, w'))))"


subsection \<open>Reading the list of calls\<close>

text \<open>The calls issued between an earlier world and a later one.\<close>

definition issued :: "world \<Rightarrow> world \<Rightarrow> event list" where
  "issued w w' = drop (length (calls w)) (calls w')"

fun is_cache_get :: "event \<Rightarrow> bool" where
  "is_cache_get (CacheGet k) = True"
| "is_cache_get e = False"

fun is_cache_set :: "event \<Rightarrow> bool" where
  "is_cache_set (CacheSet k fb t) = True"
| "is_cache_set e = False"

fun is_db_read :: "event \<Rightarrow> bool" where
  "is_db_read (DbGet s) = True"
| "is_db_read (DbGetOrCreate s d) = True"
| "is_db_read e = False"


fun is_engine :: "event \<Rightarrow> bool" where
  "is_engine (TemplateEval s) = True"
| "is_engine (GetTemplate t) = True"
| "is_engine e = False"

subsection \<open>Concrete collaborators\<close>

text \<open>
  One environment, one record and one world on which the definitions can be run: a
  context lookup for \<open>resolve\<close>, an engine that wraps the template text in brackets, and
  an output template that prints its name, the content of the record bound to
  \<^verbatim>\<open>flatblock\<close> and the value of the variable \<^verbatim>\<open>a\<close>.
\<close>

definition demo_blank :: flatblock where
  "demo_blank =
     \<lparr>flatblock.slug = [], flatblock.title = [], flatblock.header = [],
      flatblock.content = [], flatblock.raw_content = None, flatblock.raw_header = None\<rparr>"

definition demo_block :: flatblock where
  "demo_block =
     \<lparr>flatblock.slug = ''x'', flatblock.title = ''T'', flatblock.header = ''H'',
      flatblock.content = ''C'', flatblock.raw_content = None, flatblock.raw_header = None\<rparr>"

definition demo_resolve :: "string \<Rightarrow> render_context \<Rightarrow> error + string" where
  "demo_resolve v c =
     (case context_get c v of
        Some (PyStr s) \<Rightarrow> Inr s
      | Some (PyFlatBlock fb) \<Rightarrow> Inl VariableDoesNotExist
      | None \<Rightarrow> Inl VariableDoesNotExist)"

definition demo_template_render :: "string \<Rightarrow> render_context \<Rightarrow> error + string" where
  "demo_template_render s c = Inr (''<'' @ s @ ''>'')"

definition demo_loader_render :: "string \<Rightarrow> render_context \<Rightarrow> error + string" where
  "demo_loader_render t c =
     (case context_get c ''flatblock'' of
        Some (PyFlatBlock fb) \<Rightarrow>
          Inr (t @ '':'' @ flatblock.content fb @ '':'' @
               (case context_get c ''a'' of
                  Some (PyStr s) \<Rightarrow> s
                | Some (PyFlatBlock b) \<Rightarrow> []
                | None \<Rightarrow> []))
      | Some (PyStr s) \<Rightarrow> Inl TemplateDoesNotExist
      | None \<Rightarrow> Inl TemplateDoesNotExist)"

text \<open>The engine's check of a variable name: no leading underscore.\<close>

definition demo_mkvar :: "string \<Rightarrow> error option" where
  "demo_mkvar t =
     (if t \<noteq> [] \<and> hd t = CHR ''_'' then Some (TemplateSyntaxError (UnderscoreName t))
      else None)"

definition demo_env :: "bool \<Rightarrow> env" where
  "demo_env autocreate =
     \<lparr>CACHE_PREFIX = ''flatblocks_'', AUTOCREATE_STATIC_BLOCKS = autocreate,
      py_int = dec_int, blank_block = demo_blank, resolve = demo_resolve,
      template_render = demo_template_render, loader_render = demo_loader_render\<rparr>"

definition demo_world :: "(string \<rightharpoonup> flatblock) \<Rightarrow> (string \<rightharpoonup> flatblock) \<Rightarrow> world" where
  "demo_world cached stored = \<lparr>cache = cached, db = stored, calls = []\<rparr>"

text \<open>The node of \<^verbatim>\<open>{% flatblock 'x' %}\<close>, with the cache time left open.\<close>

definition demo_node :: "cache_time \<Rightarrow> node" where
  "demo_node ct =
     \<lparr>node.template_name = TemplateName ''flatblocks/flatblock.html'',
      node.slug = ''x'', node.is_variable = False, node.cache_time = ct,
      node.with_template = True, node.evaluated = False\<rparr>"

text \<open>The node of \<^verbatim>\<open>{% plain_flatblock v %}\<close> for a token \<open>v\<close> taken as a slug or as a
  variable, evaluated or not.\<close>

definition demo_plain_node :: "string \<Rightarrow> bool \<Rightarrow> bool \<Rightarrow> node" where
  "demo_plain_node v is_var ev =
     \<lparr>node.template_name = TemplateName ''flatblocks/flatblock.html'',
      node.slug = v, node.is_variable = is_var, node.cache_time = CT_Int 0,
      node.with_template = False, node.evaluated = ev\<rparr>"

text \<open>A context of one layer.\<close>

definition demo_context :: "layer \<Rightarrow> render_context" where
  "demo_context d = Context d"

text \<open>A context of two layers: \<^verbatim>\<open>a\<close> bound in the lower one, \<^verbatim>\<open>b\<close> in the top one, as
  inside \<^verbatim>\<open>{% with b="2" %}\<close> in a template rendered with \<^verbatim>\<open>{'a': '1'}\<close>.\<close>

definition demo_layered_context :: render_context where
  "demo_layered_context =
     \<lparr>top_layer = [''b'' \<mapsto> PyStr ''2''], lower_layers = [[''a'' \<mapsto> PyStr ''1'']]\<rparr>"

section \<open>Properties of the parser\<close>

lemmas prepare_defs = prepare_def and_then_def clean_slug_def clean_tpl_name_def
  convert_cache_time_def properly_quoted_def to_int_def

lemma parse_args_error:
  "parse_args tag args w = Inl e \<Longrightarrow>
     (e = TemplateSyntaxError (TwoArguments tag) \<and> length args = 2) \<or>
     (e = TemplateSyntaxError (ArgumentCount tag) \<and> 5 \<le> length args)"
  by (induction tag args w rule: parse_args.induct) (auto simp: Let_def split: if_splits)

lemma clean_slug_error: "clean_slug w = Inl e \<Longrightarrow> e = IndexError"
  by (auto simp: clean_slug_def and_then_def properly_quoted_def split: if_splits)

lemma clean_tpl_name_error: "clean_tpl_name w = Inl e \<Longrightarrow> e = IndexError"
  by (auto simp: clean_tpl_name_def and_then_def properly_quoted_def
      split: if_splits option.splits)

lemma convert_cache_time_error:
  "convert_cache_time conv w = Inl e \<Longrightarrow> e = ValueError \<or> e = TypeError"
  by (auto simp: convert_cache_time_def and_then_def to_int_def
      split: if_splits option.splits cache_time.splits)

lemma prepare_argument_count:
  assumes "prepare conv tokens = Inl (TemplateSyntaxError (ArgumentCount t))"
  shows "7 \<le> length tokens"
proof (cases tokens)
  case Nil
  with assms show ?thesis by (simp add: prepare_def)
next
  case (Cons tag rest)
  show ?thesis
  proof (cases rest)
    case Nil
    with \<open>tokens = tag # rest\<close> assms show ?thesis by (simp add: prepare_def)
  next
    case (Cons s args)
    let ?w0 = "\<lparr>wrapper.is_variable = False, wrapper.tpl_is_variable = False,
                wrapper.slug = s, wrapper.cache_time = CT_Int 0,
                wrapper.tpl_name = None, wrapper.evaluated = False\<rparr>"
    from assms \<open>tokens = tag # rest\<close> Cons
    have "parse_args tag args ?w0 = Inl (TemplateSyntaxError (ArgumentCount t))"
      by (auto simp: prepare_def and_then_def split: sum.splits
          dest: clean_slug_error clean_tpl_name_error convert_cache_time_error)
    then have "5 \<le> length args"
      by (auto dest: parse_args_error)
    with \<open>tokens = tag # rest\<close> Cons show ?thesis by simp
  qed
qed

lemma parse_args_slug:
  "parse_args tag args w = Inr w1 \<Longrightarrow>
     wrapper.slug w1 = wrapper.slug w \<and> wrapper.is_variable w1 = wrapper.is_variable w"
  by (induction tag args w rule: parse_args.induct) (auto simp: Let_def split: if_splits)

lemma clean_slug_result:
  "clean_slug w = Inr w2 \<Longrightarrow>
     wrapper.slug w \<noteq> [] \<and>
     (if quoted (wrapper.slug w)
      then wrapper.slug w2 = strip_ends (wrapper.slug w) \<and>
           wrapper.is_variable w2 = wrapper.is_variable w
      else wrapper.slug w2 = wrapper.slug w \<and> wrapper.is_variable w2)"
  by (auto simp: clean_slug_def and_then_def properly_quoted_def split: if_splits)

lemma clean_tpl_name_slug:
  "clean_tpl_name w = Inr w3 \<Longrightarrow>
     wrapper.slug w3 = wrapper.slug w \<and> wrapper.is_variable w3 = wrapper.is_variable w"
  by (auto simp: clean_tpl_name_def and_then_def properly_quoted_def
      split: if_splits option.splits)

lemma convert_cache_time_slug:
  "convert_cache_time conv w = Inr w4 \<Longrightarrow>
     wrapper.slug w4 = wrapper.slug w \<and> wrapper.is_variable w4 = wrapper.is_variable w"
  by (auto simp: convert_cache_time_def and_then_def split: if_splits sum.splits)

lemma prepare_slug:
  assumes "prepare conv (tag # tok # args) = Inr w'"
  shows "tok \<noteq> [] \<and> wrapper.is_variable w' = (\<not> quoted tok) \<and>
         wrapper.slug w' = (if quoted tok then strip_ends tok else tok)"
proof -
  let ?w0 = "\<lparr>wrapper.is_variable = False, wrapper.tpl_is_variable = False,
              wrapper.slug = tok, wrapper.cache_time = CT_Int 0,
              wrapper.tpl_name = None, wrapper.evaluated = False\<rparr>"
  from assms obtain w1 w2 w3 where
    1: "parse_args tag args ?w0 = Inr w1" and 2: "clean_slug w1 = Inr w2" and
    3: "clean_tpl_name w2 = Inr w3" and 4: "convert_cache_time conv w3 = Inr w'"
    by (auto simp: prepare_def and_then_def split: sum.splits)
  from parse_args_slug [OF 1]
  have a: "wrapper.slug w1 = tok" "wrapper.is_variable w1 = False" by simp_all
  from clean_slug_result [OF 2] a
  have b: "tok \<noteq> []" "wrapper.is_variable w2 = (\<not> quoted tok)"
    "wrapper.slug w2 = (if quoted tok then strip_ends tok else tok)"
    by (auto split: if_splits)
  from clean_tpl_name_slug [OF 3] convert_cache_time_slug [OF 4] b
  show ?thesis by simp
qed

lemma strip_ends_quoted:
  assumes "quoted tok" and "2 \<le> length tok"
  shows "tok = hd tok # strip_ends tok @ [hd tok]"
proof -
  from assms(2) obtain q rest where t: "tok = q # rest" and r: "rest \<noteq> []"
    by (cases tok) (auto simp: Suc_le_eq)
  from assms(1) t r have "last rest = q" by (simp add: quoted_def)
  with r have "rest = butlast rest @ [q]" by (metis append_butlast_last_id)
  with t show ?thesis by (simp add: strip_ends_def)
qed

lemma FlatBlockNode_Inr:
  "FlatBlockNode mkvar s iv ct wt tpl tv ev = Inr n \<Longrightarrow>
     node.slug n = s \<and> node.is_variable n = iv \<and> node.cache_time n = ct \<and>
     node.with_template n = wt \<and> node.evaluated n = ev \<and>
     init_template_name mkvar tpl tv = Inr (node.template_name n)"
  by (cases "init_template_name mkvar tpl tv") (auto simp: FlatBlockNode_def and_then_def)

lemma FlatBlockNode_no_template:
  "FlatBlockNode mkvar s iv ct wt None tv ev =
     Inr \<lparr>node.template_name = TemplateName ''flatblocks/flatblock.html'',
          node.slug = s, node.is_variable = iv, node.cache_time = ct,
          node.with_template = wt, node.evaluated = ev\<rparr>"
  by (simp add: FlatBlockNode_def init_template_name_def and_then_def)

lemma do_get_flatblock_node:
  "do_get_flatblock conv mkvar tokens = Inr n \<Longrightarrow>
     \<exists>w'. prepare conv tokens = Inr w' \<and> node.slug n = wrapper.slug w' \<and>
          node.is_variable n = wrapper.is_variable w' \<and>
          node.cache_time n = wrapper.cache_time w' \<and>
          node.with_template n \<and> node.evaluated n = wrapper.evaluated w' \<and>
          init_template_name mkvar (wrapper.tpl_name w') (wrapper.tpl_is_variable w') =
            Inr (node.template_name n)"
  by (cases "prepare conv tokens")
    (auto simp: do_get_flatblock_def and_then_def dest: FlatBlockNode_Inr)

lemma do_plain_flatblock_node:
  "do_plain_flatblock conv mkvar tokens = Inr n \<Longrightarrow>
     \<exists>w'. prepare conv tokens = Inr w' \<and> node.slug n = wrapper.slug w' \<and>
          node.is_variable n = wrapper.is_variable w' \<and>
          node.cache_time n = wrapper.cache_time w' \<and>
          \<not> node.with_template n \<and> node.evaluated n = wrapper.evaluated w' \<and>
          node.template_name n = TemplateName ''flatblocks/flatblock.html''"
  by (cases "prepare conv tokens")
    (auto simp: do_plain_flatblock_def and_then_def FlatBlockNode_no_template)

lemma do_get_flatblock_slug:
  "do_get_flatblock conv mkvar tokens = Inr n \<Longrightarrow>
     \<exists>w'. prepare conv tokens = Inr w' \<and> node.slug n = wrapper.slug w' \<and>
          node.is_variable n = wrapper.is_variable w'"
  by (blast dest: do_get_flatblock_node)

lemma do_plain_flatblock_slug:
  "do_plain_flatblock conv mkvar tokens = Inr n \<Longrightarrow>
     \<exists>w'. prepare conv tokens = Inr w' \<and> node.slug n = wrapper.slug w' \<and>
          node.is_variable n = wrapper.is_variable w'"
  by (blast dest: do_plain_flatblock_node)



section \<open>Properties of rendering\<close>

lemma issued_append: "calls w' = calls w @ es \<Longrightarrow> issued w w' = es"
  by (simp add: issued_def)

lemmas store_defs = objects_get_def objects_get_or_create_def cache_get_def cache_set_def

lemma fetch_calls:
  "calls (snd (fetch E n rs w)) =
     calls w @ [if node.is_variable n \<or> \<not> AUTOCREATE_STATIC_BLOCKS E then DbGet rs
                else DbGetOrCreate rs rs]"
  by (simp add: fetch_def store_defs Let_def split: option.splits)

lemma fetch_fst:
  "fst (fetch E n rs w) =
     (case db w rs of
        Some fb \<Rightarrow> Inr fb
      | None \<Rightarrow>
          if node.is_variable n \<or> \<not> AUTOCREATE_STATIC_BLOCKS E then Inl DoesNotExist
          else Inr ((blank_block E)\<lparr>flatblock.slug := rs, flatblock.content := rs\<rparr>))"
  by (simp add: fetch_def store_defs Let_def split: option.splits)

lemma fetch_db:
  "db (snd (fetch E n rs w)) =
     (if db w rs = None \<and> \<not> node.is_variable n \<and> AUTOCREATE_STATIC_BLOCKS E
      then (db w)(rs \<mapsto> (blank_block E)\<lparr>flatblock.slug := rs, flatblock.content := rs\<rparr>)
      else db w)"
  by (simp add: fetch_def store_defs Let_def split: option.splits)

lemma fetch_cache: "cache (snd (fetch E n rs w)) = cache w"
  by (simp add: fetch_def store_defs Let_def split: option.splits)

lemma fetch_calls_update:
  "fetch E n rs (w\<lparr>calls := cs\<rparr>) =
     (fst (fetch E n rs w),
      (snd (fetch E n rs w))\<lparr>calls := cs @ [if node.is_variable n \<or> \<not> AUTOCREATE_STATIC_BLOCKS E
                                            then DbGet rs else DbGetOrCreate rs rs]\<rparr>)"
  by (simp add: fetch_def store_defs Let_def split: option.splits)

lemma lookup_calls:
  "calls (snd (lookup E n rs w)) =
     calls w @
     (if node.cache_time n = CT_Int 0 then [] else [CacheGet (CACHE_PREFIX E @ rs)]) @
     (if node.cache_time n \<noteq> CT_Int 0 \<and> cache w (CACHE_PREFIX E @ rs) \<noteq> None then []
      else [if node.is_variable n \<or> \<not> AUTOCREATE_STATIC_BLOCKS E then DbGet rs
            else DbGetOrCreate rs rs] @
           (case fst (fetch E n rs w) of
              Inl e \<Rightarrow> []
            | Inr fb \<Rightarrow>
                if node.cache_time n = CT_Int 0 then []
                else if node.cache_time n = CT_None \<or> node.cache_time n = CT_Str ''None''
                then [CacheSet (CACHE_PREFIX E @ rs) fb None]
                else (case to_int (py_int E) (node.cache_time n) of
                        Inl e \<Rightarrow> []
                      | Inr t \<Rightarrow> [CacheSet (CACHE_PREFIX E @ rs) fb (Some t)])))"
proof (cases "node.cache_time n = CT_Int 0")
  case True
  then show ?thesis
    by (cases "fetch E n rs w")
      (use fetch_calls [of E n rs w] in
        \<open>auto simp: lookup_def Let_def split: sum.splits\<close>)
next
  case False
  show ?thesis
  proof (cases "cache w (CACHE_PREFIX E @ rs)")
    case (Some fb)
    with False show ?thesis
      by (simp add: lookup_def cache_get_def Let_def)
  next
    case None
    with False show ?thesis
      by (simp add: lookup_def cache_get_def cache_set_def Let_def
          fetch_calls_update fetch_calls split: sum.splits)
  qed
qed

lemma lookup_issued:
  "issued w (snd (lookup E n rs w)) =
     (if node.cache_time n = CT_Int 0 then [] else [CacheGet (CACHE_PREFIX E @ rs)]) @
     (if node.cache_time n \<noteq> CT_Int 0 \<and> cache w (CACHE_PREFIX E @ rs) \<noteq> None then []
      else [if node.is_variable n \<or> \<not> AUTOCREATE_STATIC_BLOCKS E then DbGet rs
            else DbGetOrCreate rs rs] @
           (case fst (fetch E n rs w) of
              Inl e \<Rightarrow> []
            | Inr fb \<Rightarrow>
                if node.cache_time n = CT_Int 0 then []
                else if node.cache_time n = CT_None \<or> node.cache_time n = CT_Str ''None''
                then [CacheSet (CACHE_PREFIX E @ rs) fb None]
                else (case to_int (py_int E) (node.cache_time n) of
                        Inl e \<Rightarrow> []
                      | Inr t \<Rightarrow> [CacheSet (CACHE_PREFIX E @ rs) fb (Some t)])))"
  by (rule issued_append) (rule lookup_calls)

lemma lookup_no_engine: "filter is_engine (issued w (snd (lookup E n rs w))) = []"
  by (simp add: lookup_issued split: sum.splits)

lemma lookup_cache_fetch_failed:
  assumes "fst (fetch E n rs w) = Inl e"
  shows "cache (snd (lookup E n rs w)) = cache w"
proof (cases "node.cache_time n = CT_Int 0")
  case True
  then show ?thesis
    by (cases "fetch E n rs w")
      (use fetch_cache [of E n rs w] in \<open>auto simp: lookup_def Let_def split: sum.splits\<close>)
next
  case False
  show ?thesis
  proof (cases "cache w (CACHE_PREFIX E @ rs)")
    case (Some fb)
    with False show ?thesis
      by (simp add: lookup_def cache_get_def Let_def)
  next
    case None
    with False assms show ?thesis
      using fetch_cache [of E n rs w]
      by (simp add: lookup_def cache_get_def Let_def fetch_calls_update)
  qed
qed


lemma lookup_db:
  "db (snd (lookup E n rs w)) =
     (if node.cache_time n \<noteq> CT_Int 0 \<and> cache w (CACHE_PREFIX E @ rs) \<noteq> None then db w
      else db (snd (fetch E n rs w)))"
proof (cases "node.cache_time n = CT_Int 0")
  case True
  then show ?thesis
    by (cases "fetch E n rs w") (auto simp: lookup_def Let_def split: sum.splits)
next
  case False
  then show ?thesis
    by (cases "cache w (CACHE_PREFIX E @ rs)")
      (auto simp: lookup_def cache_get_def cache_set_def Let_def fetch_calls_update
        split: sum.splits)
qed

lemma lookup_fst:
  "fst (lookup E n rs w) =
     (if node.cache_time n = CT_Int 0 then fst (fetch E n rs w)
      else (case cache w (CACHE_PREFIX E @ rs) of
              Some fb \<Rightarrow> Inr fb
            | None \<Rightarrow>
                (case fst (fetch E n rs w) of
                   Inl e \<Rightarrow> Inl e
                 | Inr fb \<Rightarrow>
                     if node.cache_time n = CT_None \<or> node.cache_time n = CT_Str ''None''
                     then Inr fb
                     else (case to_int (py_int E) (node.cache_time n) of
                             Inl e \<Rightarrow> Inl e
                           | Inr t \<Rightarrow> Inr fb))))"
proof (cases "node.cache_time n = CT_Int 0")
  case True
  then show ?thesis
    by (cases "fetch E n rs w") (auto simp: lookup_def Let_def split: sum.splits)
next
  case False
  then show ?thesis
    by (cases "cache w (CACHE_PREFIX E @ rs)")
      (auto simp: lookup_def cache_get_def cache_set_def Let_def fetch_calls_update
        split: sum.splits)
qed

lemma evaluate_fields_fst:
  "fst (evaluate_fields E c fb w) =
     (case template_render E (flatblock.content fb) c of
        Inl e \<Rightarrow> Inl e
      | Inr x \<Rightarrow>
          (case template_render E (flatblock.header fb) c of
             Inl e \<Rightarrow> Inl e
           | Inr y \<Rightarrow>
               Inr (fb\<lparr>flatblock.raw_content := Some (flatblock.content fb),
                       flatblock.raw_header := Some (flatblock.header fb),
                       flatblock.content := x, flatblock.header := y\<rparr>)))"
  by (simp add: evaluate_fields_def evaluate_def Let_def split: sum.splits)

lemma evaluate_fields_calls:
  "calls (snd (evaluate_fields E c fb w)) =
     calls w @ TemplateEval (flatblock.content fb) #
       (case template_render E (flatblock.content fb) c of
          Inl e \<Rightarrow> []
        | Inr x \<Rightarrow> [TemplateEval (flatblock.header fb)])"
  by (simp add: evaluate_fields_def evaluate_def Let_def split: sum.splits)

lemma evaluate_fields_store:
  "db (snd (evaluate_fields E c fb w)) = db w \<and> cache (snd (evaluate_fields E c fb w)) = cache w"
  by (simp add: evaluate_fields_def evaluate_def Let_def split: sum.splits)

lemma resolved_record_fst:
  "fst (resolved_record E n c rs w) =
     (case fst (lookup E n rs w) of
        Inl e \<Rightarrow> Inl e
      | Inr fb \<Rightarrow> if node.evaluated n then fst (evaluate_fields E c fb w) else Inr fb)"
  by (cases "lookup E n rs w")
    (simp add: resolved_record_def evaluate_fields_fst split: sum.splits)

lemma resolved_record_calls:
  "calls (snd (resolved_record E n c rs w)) =
     calls (snd (lookup E n rs w)) @
     (case fst (lookup E n rs w) of
        Inl e \<Rightarrow> []
      | Inr fb \<Rightarrow>
          if node.evaluated n then
            TemplateEval (flatblock.content fb) #
              (case template_render E (flatblock.content fb) c of
                 Inl e \<Rightarrow> []
               | Inr x \<Rightarrow> [TemplateEval (flatblock.header fb)])
          else [])"
  by (cases "lookup E n rs w")
    (simp add: resolved_record_def evaluate_fields_calls split: sum.splits)

lemma resolved_record_db:
  "db (snd (resolved_record E n c rs w)) = db (snd (lookup E n rs w))"
  by (cases "lookup E n rs w")
    (simp add: resolved_record_def evaluate_fields_store split: sum.splits)

lemma render_output_fst:
  "fst (render_output E n c rt fb w) =
     (if node.with_template n
      then loader_render E rt
             (push_layer [''flatblock'' \<mapsto> PyFlatBlock fb] (update_context (Context Map.empty) c))
      else Inr (flatblock.content fb))"
  by (simp add: render_output_def Let_def)

lemma render_output_snd:
  "snd (render_output E n c rt fb w) =
     (if node.with_template n then w\<lparr>calls := calls w @ [GetTemplate rt]\<rparr> else w)"
  by (simp add: render_output_def Let_def)

lemma render_fst:
  assumes "real_slug E n c = Inr rs" and "real_template E n c = Inr rt"
  shows "fst (render E n c w) =
     (case fst (resolved_record E n c rs w) of
        Inl e \<Rightarrow> if e = DoesNotExist then Inr [] else Inl e
      | Inr fb \<Rightarrow>
          (case fst (render_output E n c rt fb w) of
             Inl e \<Rightarrow> if e = DoesNotExist then Inr [] else Inl e
           | Inr out \<Rightarrow> Inr out))"
proof (cases "resolved_record E n c rs w")
  case (Pair r w2)
  show ?thesis
  proof (cases r)
    case (Inl e)
    with Pair assms show ?thesis by (simp add: render_def try_body_def)
  next
    case (Inr fb)
    have "fst (render_output E n c rt fb w2) = fst (render_output E n c rt fb w)"
      by (simp add: render_output_fst)
    with Pair Inr assms show ?thesis
      by (cases "render_output E n c rt fb w2")
        (auto simp: render_def try_body_def split: sum.splits)
  qed
qed

lemma render_calls:
  assumes "real_slug E n c = Inr rs" and "real_template E n c = Inr rt"
  shows "calls (snd (render E n c w)) =
     calls (snd (resolved_record E n c rs w)) @
     (case fst (resolved_record E n c rs w) of
        Inl e \<Rightarrow> []
      | Inr fb \<Rightarrow> if node.with_template n then [GetTemplate rt] else [])"
proof (cases "resolved_record E n c rs w")
  case (Pair r w2)
  show ?thesis
  proof (cases r)
    case (Inl e)
    with Pair assms show ?thesis by (simp add: render_def try_body_def)
  next
    case (Inr fb)
    with Pair assms show ?thesis
      using render_output_snd [of E n c rt fb w2]
      by (cases "render_output E n c rt fb w2")
        (auto simp: render_def try_body_def split: sum.splits)
  qed
qed

lemma render_db:
  assumes "real_slug E n c = Inr rs" and "real_template E n c = Inr rt"
  shows "db (snd (render E n c w)) = db (snd (lookup E n rs w))"
proof (cases "resolved_record E n c rs w")
  case (Pair r w2)
  then have d: "db w2 = db (snd (lookup E n rs w))"
    using resolved_record_db [of E n c rs w] by simp
  show ?thesis
  proof (cases r)
    case (Inl e)
    with Pair assms d show ?thesis by (simp add: render_def try_body_def)
  next
    case (Inr fb)
    with Pair assms d show ?thesis
      using render_output_snd [of E n c rt fb w2]
      by (cases "render_output E n c rt fb w2")
        (auto simp: render_def try_body_def split: sum.splits)
  qed
qed

lemma resolved_record_cache:
  "cache (snd (resolved_record E n c rs w)) = cache (snd (lookup E n rs w))"
  by (cases "lookup E n rs w")
    (simp add: resolved_record_def evaluate_fields_store split: sum.splits)

lemma render_cache:
  assumes "real_slug E n c = Inr rs" and "real_template E n c = Inr rt"
  shows "cache (snd (render E n c w)) = cache (snd (lookup E n rs w))"
proof (cases "resolved_record E n c rs w")
  case (Pair r w2)
  then have d: "cache w2 = cache (snd (lookup E n rs w))"
    using resolved_record_cache [of E n c rs w] by simp
  show ?thesis
  proof (cases r)
    case (Inl e)
    with Pair assms d show ?thesis by (simp add: render_def try_body_def)
  next
    case (Inr fb)
    with Pair assms d show ?thesis
      using render_output_snd [of E n c rt fb w2]
      by (cases "render_output E n c rt fb w2")
        (auto simp: render_def try_body_def split: sum.splits)
  qed
qed

lemma render_issued:
  assumes "real_slug E n c = Inr rs" and "real_template E n c = Inr rt"
  shows "issued w (snd (render E n c w)) =
     issued w (snd (lookup E n rs w)) @
     (case fst (lookup E n rs w) of
        Inl e \<Rightarrow> []
      | Inr fb \<Rightarrow>
          if node.evaluated n then
            TemplateEval (flatblock.content fb) #
              (case template_render E (flatblock.content fb) c of
                 Inl e \<Rightarrow> []
               | Inr x \<Rightarrow> [TemplateEval (flatblock.header fb)])
          else []) @
     (case fst (resolved_record E n c rs w) of
        Inl e \<Rightarrow> []
      | Inr fb \<Rightarrow> if node.with_template n then [GetTemplate rt] else [])"
proof -
  have "calls (snd (lookup E n rs w)) = calls w @ issued w (snd (lookup E n rs w))"
    using lookup_calls [of E n rs w] by (simp add: issued_def)
  then show ?thesis
    by (intro issued_append)
      (simp add: render_calls [OF assms] resolved_record_calls)
qed

lemma render_store_calls:
  assumes "real_slug E n c = Inr rs" and "real_template E n c = Inr rt"
    and "\<And>e. is_engine e \<Longrightarrow> \<not> P e"
  shows "filter P (issued w (snd (render E n c w))) =
         filter P (issued w (snd (lookup E n rs w)))"
  using assms(3) [of "TemplateEval s" for s] assms(3) [of "GetTemplate s" for s]
  by (simp add: render_issued [OF assms(1,2)] split: sum.splits)

lemma render_cache_gets:
  assumes "real_slug E n c = Inr rs" and "real_template E n c = Inr rt"
  shows "filter is_cache_get (issued w (snd (render E n c w))) =
     (if node.cache_time n = CT_Int 0 then [] else [CacheGet (CACHE_PREFIX E @ rs)])"
proof -
  have "filter is_cache_get (issued w (snd (render E n c w))) =
        filter is_cache_get (issued w (snd (lookup E n rs w)))"
    by (rule render_store_calls [OF assms]) (auto elim: is_engine.elims)
  then show ?thesis
    by (simp add: lookup_issued split: sum.splits)
qed

lemma render_db_reads:
  assumes "real_slug E n c = Inr rs" and "real_template E n c = Inr rt"
  shows "filter is_db_read (issued w (snd (render E n c w))) =
     (if node.cache_time n \<noteq> CT_Int 0 \<and> cache w (CACHE_PREFIX E @ rs) \<noteq> None then []
      else [if node.is_variable n \<or> \<not> AUTOCREATE_STATIC_BLOCKS E then DbGet rs
            else DbGetOrCreate rs rs])"
proof -
  have "filter is_db_read (issued w (snd (render E n c w))) =
        filter is_db_read (issued w (snd (lookup E n rs w)))"
    by (rule render_store_calls [OF assms]) (auto elim: is_engine.elims)
  then show ?thesis
    by (simp add: lookup_issued split: sum.splits)
qed

lemma render_cache_sets:
  assumes "real_slug E n c = Inr rs" and "real_template E n c = Inr rt"
  shows "filter is_cache_set (issued w (snd (render E n c w))) =
     (if node.cache_time n = CT_Int 0 \<or> cache w (CACHE_PREFIX E @ rs) \<noteq> None then []
      else (case fst (fetch E n rs w) of
              Inl e \<Rightarrow> []
            | Inr fb \<Rightarrow>
                if node.cache_time n = CT_None \<or> node.cache_time n = CT_Str ''None''
                then [CacheSet (CACHE_PREFIX E @ rs) fb None]
                else (case to_int (py_int E) (node.cache_time n) of
                        Inl e \<Rightarrow> []
                      | Inr t \<Rightarrow> [CacheSet (CACHE_PREFIX E @ rs) fb (Some t)])))"
proof -
  have "filter is_cache_set (issued w (snd (render E n c w))) =
        filter is_cache_set (issued w (snd (lookup E n rs w)))"
    by (rule render_store_calls [OF assms]) (auto elim: is_engine.elims)
  then show ?thesis
    by (simp add: lookup_issued split: sum.splits)
qed


section \<open>Running the concrete collaborators\<close>

lemma demo_node_simps:
  "node.slug (demo_node ct) = ''x''"
  "node.is_variable (demo_node ct) = False"
  "node.cache_time (demo_node ct) = ct"
  "node.with_template (demo_node ct) = True"
  "node.evaluated (demo_node ct) = False"
  "node.template_name (demo_node ct) = TemplateName ''flatblocks/flatblock.html''"
  by (simp_all add: demo_node_def)

lemma demo_plain_node_simps:
  "node.slug (demo_plain_node v iv ev) = v"
  "node.is_variable (demo_plain_node v iv ev) = iv"
  "node.cache_time (demo_plain_node v iv ev) = CT_Int 0"
  "node.with_template (demo_plain_node v iv ev) = False"
  "node.evaluated (demo_plain_node v iv ev) = ev"
  "node.template_name (demo_plain_node v iv ev) = TemplateName ''flatblocks/flatblock.html''"
  by (simp_all add: demo_plain_node_def)

lemma demo_context_get: "context_get (demo_context d) k = d k"
  by (simp add: demo_context_def Context_def context_get_def split: option.splits)

lemma demo_env_simps:
  "CACHE_PREFIX (demo_env a) = ''flatblocks_''"
  "AUTOCREATE_STATIC_BLOCKS (demo_env a) = a"
  "py_int (demo_env a) = dec_int"
  "blank_block (demo_env a) = demo_blank"
  "resolve (demo_env a) = demo_resolve"
  "template_render (demo_env a) = demo_template_render"
  "loader_render (demo_env a) = demo_loader_render"
  by (simp_all add: demo_env_def)

lemma demo_world_simps:
  "cache (demo_world k d) = k" "db (demo_world k d) = d" "calls (demo_world k d) = []"
  by (simp_all add: demo_world_def)

lemma demo_block_simps:
  "flatblock.content demo_block = ''C''" "flatblock.header demo_block = ''H''"
  "flatblock.slug demo_block = ''x''"
  by (simp_all add: demo_block_def)

lemmas demo_simps = demo_node_simps demo_plain_node_simps demo_env_simps demo_world_simps

section \<open>The claims\<close>




text \<open>
  C2. In a render that reads the datastore (the names resolve and \<open>cache_time\<close> is 0 or
  the cache misses): a missing record is created exactly when the slug is a literal and
  \<^verbatim>\<open>AUTOCREATE_STATIC_BLOCKS\<close> is on, through \<^verbatim>\<open>get_or_create\<close>, and the record stored
  then has the slug as its content; when the slug is a variable or the setting is off, a
  plain \<^verbatim>\<open>get\<close> is issued, which raises \<^verbatim>\<open>DoesNotExist\<close> on a missing record and leaves
  the datastore as it was. A record that exists is returned and the datastore is left as
  it was.
\<close>

theorem render_autocreate:
  assumes "real_slug E n c = Inr rs" and "real_template E n c = Inr rt"
    and "node.cache_time n = CT_Int 0 \<or> cache w (CACHE_PREFIX E @ rs) = None"
  shows
  "(db w rs = None \<and> \<not> node.is_variable n \<and> AUTOCREATE_STATIC_BLOCKS E \<longrightarrow>
      filter is_db_read (issued w (snd (render E n c w))) = [DbGetOrCreate rs rs] \<and>
      fst (fetch E n rs w) =
        Inr ((blank_block E)\<lparr>flatblock.slug := rs, flatblock.content := rs\<rparr>) \<and>
      (\<exists>fb. db (snd (render E n c w)) rs = Some fb \<and>
            flatblock.content fb = rs \<and> flatblock.slug fb = rs)) \<and>
   (db w rs = None \<and> (node.is_variable n \<or> \<not> AUTOCREATE_STATIC_BLOCKS E) \<longrightarrow>
      filter is_db_read (issued w (snd (render E n c w))) = [DbGet rs] \<and>
      fst (lookup E n rs w) = Inl DoesNotExist \<and>
      db (snd (render E n c w)) = db w) \<and>
   (db w rs = Some fb' \<longrightarrow>
      fst (fetch E n rs w) = Inr fb' \<and> db (snd (render E n c w)) = db w) \<and>
   (node.is_variable n \<or> \<not> AUTOCREATE_STATIC_BLOCKS E \<longrightarrow>
      filter is_db_read (issued w (snd (render E n c w))) = [DbGet rs])"
proof -
  note reads = render_db_reads [OF assms(1,2), of w]
  have d: "db (snd (render E n c w)) = db (snd (fetch E n rs w))"
    using assms(3) by (auto simp: render_db [OF assms(1,2)] lookup_db)
  have 1: "db w rs = None \<and> \<not> node.is_variable n \<and> AUTOCREATE_STATIC_BLOCKS E \<longrightarrow>
      filter is_db_read (issued w (snd (render E n c w))) = [DbGetOrCreate rs rs] \<and>
      fst (fetch E n rs w) =
        Inr ((blank_block E)\<lparr>flatblock.slug := rs, flatblock.content := rs\<rparr>) \<and>
      (\<exists>fb. db (snd (render E n c w)) rs = Some fb \<and>
            flatblock.content fb = rs \<and> flatblock.slug fb = rs)"
    using assms(3) by (auto simp: reads d fetch_db fetch_fst)
  have 2: "db w rs = None \<and> (node.is_variable n \<or> \<not> AUTOCREATE_STATIC_BLOCKS E) \<longrightarrow>
      filter is_db_read (issued w (snd (render E n c w))) = [DbGet rs] \<and>
      fst (lookup E n rs w) = Inl DoesNotExist \<and>
      db (snd (render E n c w)) = db w"
    using assms(3) by (auto simp: reads d fetch_db fetch_fst lookup_fst)
  have 3: "db w rs = Some fb' \<longrightarrow>
      fst (fetch E n rs w) = Inr fb' \<and> db (snd (render E n c w)) = db w"
    by (simp add: d fetch_db fetch_fst)
  have 4: "node.is_variable n \<or> \<not> AUTOCREATE_STATIC_BLOCKS E \<longrightarrow>
      filter is_db_read (issued w (snd (render E n c w))) = [DbGet rs]"
    using assms(3) by (auto simp: reads)
  from 1 2 3 4 show ?thesis by blast
qed

theorem render_autocreate_witness:
  "filter is_db_read
     (issued (demo_world Map.empty Map.empty)
        (snd (render (demo_env True) (demo_node (CT_Int 0)) (demo_context Map.empty)
                (demo_world Map.empty Map.empty)))) = [DbGetOrCreate ''x'' ''x''] \<and>
   (\<exists>fb. db (snd (render (demo_env True) (demo_node (CT_Int 0)) (demo_context Map.empty)
                     (demo_world Map.empty Map.empty))) ''x'' = Some fb \<and>
         flatblock.content fb = ''x'' \<and> flatblock.slug fb = ''x'') \<and>
   filter is_db_read
     (issued (demo_world Map.empty Map.empty)
        (snd (render (demo_env False) (demo_node (CT_Int 0)) (demo_context Map.empty)
                (demo_world Map.empty Map.empty)))) = [DbGet ''x''] \<and>
   fst (lookup (demo_env False) (demo_node (CT_Int 0)) ''x'' (demo_world Map.empty Map.empty)) =
     Inl DoesNotExist \<and>
   db (snd (render (demo_env False) (demo_node (CT_Int 0)) (demo_context Map.empty)
              (demo_world Map.empty Map.empty))) = Map.empty \<and>
   db (snd (render (demo_env True) (demo_node (CT_Int 0)) (demo_context Map.empty)
              (demo_world Map.empty [''x'' \<mapsto> demo_block]))) = [''x'' \<mapsto> demo_block]"
proof -
  let ?n = "demo_node (CT_Int 0)"
  let ?w = "demo_world Map.empty Map.empty"
  let ?w' = "demo_world Map.empty [''x'' \<mapsto> demo_block]"
  have rs: "real_slug (demo_env a) ?n (demo_context Map.empty) = Inr ''x''" for a
    by (simp add: real_slug_def demo_simps)
  have rt: "real_template (demo_env a) ?n (demo_context Map.empty) = Inr ''flatblocks/flatblock.html''" for a
    by (simp add: real_template_def demo_simps)
  have ct: "node.cache_time ?n = CT_Int 0 \<or> cache v (CACHE_PREFIX (demo_env a) @ ''x'') = None"
    for v a
    by (simp add: demo_simps)
  have 1: "filter is_db_read (issued ?w (snd (render (demo_env True) ?n (demo_context Map.empty) ?w))) =
       [DbGetOrCreate ''x'' ''x''] \<and>
     (\<exists>fb. db (snd (render (demo_env True) ?n (demo_context Map.empty) ?w)) ''x'' = Some fb \<and>
         flatblock.content fb = ''x'' \<and> flatblock.slug fb = ''x'')"
    using render_autocreate [OF rs [of True] rt [of True] ct [of ?w True]]
    by (simp add: demo_simps)
  have 2: "filter is_db_read (issued ?w (snd (render (demo_env False) ?n (demo_context Map.empty) ?w))) =
       [DbGet ''x''] \<and>
     fst (lookup (demo_env False) ?n ''x'' ?w) = Inl DoesNotExist \<and>
     db (snd (render (demo_env False) ?n (demo_context Map.empty) ?w)) = Map.empty"
    using render_autocreate [OF rs [of False] rt [of False] ct [of ?w False]]
    by (simp add: demo_simps)
  have 3: "db (snd (render (demo_env True) ?n (demo_context Map.empty) ?w')) = [''x'' \<mapsto> demo_block]"
    using render_autocreate [OF rs [of True] rt [of True] ct [of ?w' True],
        where fb' = demo_block]
    by (simp add: demo_simps)
  from 1 2 3 show ?thesis by blast
qed

text \<open>
  C3. For a node built by either tag from the slug token \<open>tok\<close>: when the first and last
  characters of \<open>tok\<close> are the same quote character, the node is not a variable and its
  slug is \<open>tok\<close> without its first and last character (so \<open>tok\<close> is the quote, the slug,
  the quote, when it has two characters or more), which is the slug \<^verbatim>\<open>render\<close> looks up;
  otherwise the node is a variable named \<open>tok\<close>, and the slug \<^verbatim>\<open>render\<close> looks up is the
  value the context gives that variable: an error of the resolution leaves \<^verbatim>\<open>render\<close>,
  and the resolved value is the key of the cache read and of the datastore read.
\<close>

theorem slug_literal_or_variable:
  "(do_get_flatblock conv mkvar (tag # tok # args) = Inr n \<or>
    do_plain_flatblock conv mkvar (tag # tok # args) = Inr n \<longrightarrow>
      tok \<noteq> [] \<and>
      (quoted tok \<longrightarrow>
         \<not> node.is_variable n \<and> node.slug n = strip_ends tok \<and>
         real_slug E n c = Inr (strip_ends tok) \<and>
         (2 \<le> length tok \<longrightarrow> tok = hd tok # node.slug n @ [hd tok])) \<and>
      (\<not> quoted tok \<longrightarrow>
         node.is_variable n \<and> node.slug n = tok \<and> real_slug E n c = resolve E tok c)) \<and>
   (node.is_variable m \<and> resolve E (node.slug m) c = Inl e \<longrightarrow>
      render E m c w = (Inl e, w)) \<and>
   (node.is_variable m \<and> resolve E (node.slug m) c = Inr v \<and>
    real_template E m c = Inr rt \<longrightarrow>
      filter is_cache_get (issued w (snd (render E m c w))) =
        (if node.cache_time m \<noteq> CT_Int 0 then [CacheGet (CACHE_PREFIX E @ v)] else []) \<and>
      (node.cache_time m = CT_Int 0 \<or> cache w (CACHE_PREFIX E @ v) = None \<longrightarrow>
         filter is_db_read (issued w (snd (render E m c w))) = [DbGet v]))"
proof -
  have 1: "do_get_flatblock conv mkvar (tag # tok # args) = Inr n \<or>
    do_plain_flatblock conv mkvar (tag # tok # args) = Inr n \<longrightarrow>
      tok \<noteq> [] \<and>
      (quoted tok \<longrightarrow>
         \<not> node.is_variable n \<and> node.slug n = strip_ends tok \<and>
         real_slug E n c = Inr (strip_ends tok) \<and>
         (2 \<le> length tok \<longrightarrow> tok = hd tok # node.slug n @ [hd tok])) \<and>
      (\<not> quoted tok \<longrightarrow>
         node.is_variable n \<and> node.slug n = tok \<and> real_slug E n c = resolve E tok c)"
  proof
    assume "do_get_flatblock conv mkvar (tag # tok # args) = Inr n \<or>
      do_plain_flatblock conv mkvar (tag # tok # args) = Inr n"
    then obtain w' where p: "prepare conv (tag # tok # args) = Inr w'"
      and n: "node.slug n = wrapper.slug w'" "node.is_variable n = wrapper.is_variable w'"
      using do_get_flatblock_slug do_plain_flatblock_slug by blast
    from prepare_slug [OF p] n
    have "tok \<noteq> []" "node.is_variable n = (\<not> quoted tok)"
      "node.slug n = (if quoted tok then strip_ends tok else tok)"
      by simp_all
    then show "tok \<noteq> [] \<and>
      (quoted tok \<longrightarrow>
         \<not> node.is_variable n \<and> node.slug n = strip_ends tok \<and>
         real_slug E n c = Inr (strip_ends tok) \<and>
         (2 \<le> length tok \<longrightarrow> tok = hd tok # node.slug n @ [hd tok])) \<and>
      (\<not> quoted tok \<longrightarrow>
         node.is_variable n \<and> node.slug n = tok \<and> real_slug E n c = resolve E tok c)"
      using strip_ends_quoted [of tok] by (simp add: real_slug_def)
  qed
  have 2: "node.is_variable m \<and> resolve E (node.slug m) c = Inl e \<longrightarrow>
      render E m c w = (Inl e, w)"
    by (simp add: render_def real_slug_def)
  have 3: "node.is_variable m \<and> resolve E (node.slug m) c = Inr v \<and>
    real_template E m c = Inr rt \<longrightarrow>
      filter is_cache_get (issued w (snd (render E m c w))) =
        (if node.cache_time m \<noteq> CT_Int 0 then [CacheGet (CACHE_PREFIX E @ v)] else []) \<and>
      (node.cache_time m = CT_Int 0 \<or> cache w (CACHE_PREFIX E @ v) = None \<longrightarrow>
         filter is_db_read (issued w (snd (render E m c w))) = [DbGet v])"
  proof
    assume a: "node.is_variable m \<and> resolve E (node.slug m) c = Inr v \<and>
      real_template E m c = Inr rt"
    then have rs: "real_slug E m c = Inr v" by (simp add: real_slug_def)
    from a have rt: "real_template E m c = Inr rt" by simp
    from a show "filter is_cache_get (issued w (snd (render E m c w))) =
        (if node.cache_time m \<noteq> CT_Int 0 then [CacheGet (CACHE_PREFIX E @ v)] else []) \<and>
      (node.cache_time m = CT_Int 0 \<or> cache w (CACHE_PREFIX E @ v) = None \<longrightarrow>
         filter is_db_read (issued w (snd (render E m c w))) = [DbGet v])"
      by (auto simp: render_cache_gets [OF rs rt] render_db_reads [OF rs rt])
  qed
  from 1 2 3 show ?thesis by blast
qed

theorem slug_literal_or_variable_witness:
  "do_get_flatblock dec_int demo_mkvar [''flatblock'', [CHR 0x27, CHR ''x'', CHR 0x27]] =
     Inr (demo_node (CT_Int 0)) \<and>
   quoted [CHR 0x27, CHR ''x'', CHR 0x27] \<and>
   \<not> node.is_variable (demo_node (CT_Int 0)) \<and>
   node.slug (demo_node (CT_Int 0)) = ''x'' \<and>
   real_slug (demo_env False) (demo_node (CT_Int 0)) (demo_context [''name'' \<mapsto> PyStr ''x'']) =
     Inr ''x'' \<and>
   do_plain_flatblock dec_int demo_mkvar [''plain_flatblock'', ''name''] =
     Inr (demo_plain_node ''name'' True False) \<and>
   \<not> quoted ''name'' \<and>
   node.is_variable (demo_plain_node ''name'' True False) \<and>
   real_slug (demo_env False) (demo_plain_node ''name'' True False)
     (demo_context [''name'' \<mapsto> PyStr ''x'']) = Inr ''x'' \<and>
   render (demo_env False) (demo_plain_node ''name'' True False)
     (demo_context Map.empty) (demo_world Map.empty [''x'' \<mapsto> demo_block]) =
     (Inl VariableDoesNotExist, demo_world Map.empty [''x'' \<mapsto> demo_block]) \<and>
   filter is_db_read
     (issued (demo_world Map.empty [''x'' \<mapsto> demo_block])
        (snd (render (demo_env False) (demo_plain_node ''name'' True False)
                (demo_context [''name'' \<mapsto> PyStr ''x''])
                (demo_world Map.empty [''x'' \<mapsto> demo_block])))) =
     [DbGet ''x'']"
proof -
  let ?E = "demo_env False"
  let ?q = "[CHR 0x27, CHR ''x'', CHR 0x27]"
  let ?m = "demo_plain_node ''name'' True False"
  let ?c = "demo_context [''name'' \<mapsto> PyStr ''x'']"
  let ?e = "demo_context Map.empty"
  let ?w = "demo_world Map.empty [''x'' \<mapsto> demo_block]"
  have g: "do_get_flatblock dec_int demo_mkvar [''flatblock'', ?q] = Inr (demo_node (CT_Int 0))"
    by (simp add: do_get_flatblock_def FlatBlockNode_no_template demo_node_def prepare_defs
        quoted_def strip_ends_def)
  have p: "do_plain_flatblock dec_int demo_mkvar [''plain_flatblock'', ''name''] = Inr ?m"
    by (simp add: do_plain_flatblock_def FlatBlockNode_no_template demo_plain_node_def
        prepare_defs quoted_def)
  have q: "quoted ?q" and nq: "\<not> quoted ''name''"
    by (simp_all add: quoted_def)
  have s: "strip_ends ?q = ''x''"
    by (simp add: strip_ends_def)
  have r: "resolve ?E ''name'' ?c = Inr ''x''"
    "resolve ?E ''name'' ?e = Inl VariableDoesNotExist"
    by (simp_all add: demo_simps demo_resolve_def demo_context_get)
  have t: "real_template ?E ?m c = Inr ''flatblocks/flatblock.html''" for c
    by (simp add: real_template_def demo_simps)
  have v: "node.is_variable ?m" "node.cache_time ?m = CT_Int 0" "node.slug ?m = ''name''"
    by (simp_all add: demo_simps)
  note lit = slug_literal_or_variable [where conv = dec_int and mkvar = demo_mkvar
      and tag = "''flatblock''"
      and tok = ?q and args = "[]" and n = "demo_node (CT_Int 0)" and E = ?E and c = ?c,
      THEN conjunct1, THEN mp, OF disjI1, OF g, THEN conjunct2, THEN conjunct1, THEN mp, OF q]
  have 1: "\<not> node.is_variable (demo_node (CT_Int 0)) \<and>
     node.slug (demo_node (CT_Int 0)) = ''x'' \<and>
     real_slug ?E (demo_node (CT_Int 0)) ?c = Inr ''x''"
    using lit [THEN conjunct1] lit [THEN conjunct2, THEN conjunct1]
      lit [THEN conjunct2, THEN conjunct2, THEN conjunct1]
    by (simp only: s simp_thms)
  note var = slug_literal_or_variable [where conv = dec_int and mkvar = demo_mkvar
      and tag = "''plain_flatblock''"
      and tok = "''name''" and args = "[]" and n = ?m and E = ?E and c = ?c,
      THEN conjunct1, THEN mp, OF disjI2, OF p, THEN conjunct2, THEN conjunct2, THEN mp, OF nq]
  have 2: "node.is_variable ?m \<and> real_slug ?E ?m ?c = Inr ''x''"
    using var [THEN conjunct1] var [THEN conjunct2, THEN conjunct2]
    by (simp only: r simp_thms)
  have 3: "render ?E ?m ?e ?w = (Inl VariableDoesNotExist, ?w)"
    using slug_literal_or_variable [where E = ?E and m = ?m and c = ?e
        and e = VariableDoesNotExist and w = ?w, THEN conjunct2, THEN conjunct1] v r
    by simp
  have 4: "filter is_db_read (issued ?w (snd (render ?E ?m ?c ?w))) = [DbGet ''x'']"
    using slug_literal_or_variable [where E = ?E and m = ?m and c = ?c
        and v = "''x''" and rt = "''flatblocks/flatblock.html''" and w = ?w,
        THEN conjunct2, THEN conjunct2] v r t
    by simp
  from g p q nq 1 2 3 4 show ?thesis by blast
qed



text \<open>
  C5, evaluated where it fails. The enclosing context binds \<^verbatim>\<open>a\<close> in its lower layer, and
  the output template rendered over that context extended with the record would print its
  value. \<^verbatim>\<open>render\<close> hands the template a fresh context that holds the top layer of the
  enclosing one and the record, in which \<^verbatim>\<open>a\<close> is not bound.
\<close>

theorem render_output_top_layer_only:
  "context_get demo_layered_context ''a'' = Some (PyStr ''1'') \<and>
   loader_render (demo_env False) ''flatblocks/flatblock.html''
     (push_layer [''flatblock'' \<mapsto> PyFlatBlock demo_block] demo_layered_context) =
     Inr ''flatblocks/flatblock.html:C:1'' \<and>
   fst (render (demo_env False) (demo_node (CT_Int 0)) demo_layered_context
          (demo_world Map.empty [''x'' \<mapsto> demo_block])) =
     Inr ''flatblocks/flatblock.html:C:'' \<and>
   fst (render_output (demo_env False) (demo_node (CT_Int 0)) demo_layered_context
          ''flatblocks/flatblock.html'' demo_block
          (demo_world Map.empty [''x'' \<mapsto> demo_block])) =
     loader_render (demo_env False) ''flatblocks/flatblock.html''
       \<lparr>top_layer = [''flatblock'' \<mapsto> PyFlatBlock demo_block],
        lower_layers = [[''b'' \<mapsto> PyStr ''2''], Map.empty]\<rparr>"
proof -
  let ?E = "demo_env False"
  let ?n = "demo_node (CT_Int 0)"
  let ?c = "demo_layered_context"
  let ?w = "demo_world Map.empty [''x'' \<mapsto> demo_block]"
  have rs: "real_slug ?E ?n ?c = Inr ''x''"
    by (simp add: real_slug_def demo_simps)
  have rt: "real_template ?E ?n ?c = Inr ''flatblocks/flatblock.html''"
    by (simp add: real_template_def demo_simps)
  have r: "fst (resolved_record ?E ?n ?c ''x'' ?w) = Inr demo_block"
    by (simp add: resolved_record_fst lookup_fst fetch_fst demo_simps)
  have 1: "context_get ?c ''a'' = Some (PyStr ''1'')"
    by (simp add: context_get_def demo_layered_context_def)
  have 2: "loader_render ?E ''flatblocks/flatblock.html''
      (push_layer [''flatblock'' \<mapsto> PyFlatBlock demo_block] ?c) =
      Inr ''flatblocks/flatblock.html:C:1''"
    by (simp add: demo_simps demo_loader_render_def context_get_def push_layer_def
        demo_layered_context_def demo_block_simps)
  have 4: "fst (render_output ?E ?n ?c ''flatblocks/flatblock.html'' demo_block ?w) =
      loader_render ?E ''flatblocks/flatblock.html''
        \<lparr>top_layer = [''flatblock'' \<mapsto> PyFlatBlock demo_block],
         lower_layers = [[''b'' \<mapsto> PyStr ''2''], Map.empty]\<rparr>"
    by (simp add: render_output_fst demo_simps push_layer_def update_context_def Context_def
        demo_layered_context_def)
  have 5: "loader_render ?E ''flatblocks/flatblock.html''
        \<lparr>top_layer = [''flatblock'' \<mapsto> PyFlatBlock demo_block],
         lower_layers = [[''b'' \<mapsto> PyStr ''2''], Map.empty]\<rparr> =
      Inr ''flatblocks/flatblock.html:C:''"
    by (simp add: demo_simps demo_loader_render_def context_get_def demo_block_simps)
  have 3: "fst (render ?E ?n ?c ?w) = Inr ''flatblocks/flatblock.html:C:''"
    by (simp add: render_fst [OF rs rt] r 4 5)
  from 1 2 3 4 show ?thesis by blast
qed

text \<open>
  C6, evaluated where it fails. The branches for three and for four arguments never look
  at the keyword positions: with \<^verbatim>\<open>foo\<close> where \<^verbatim>\<open>using\<close> belongs, and with \<^verbatim>\<open>foo bar\<close>
  where \<^verbatim>\<open>evaluated using\<close> belongs, \<^verbatim>\<open>prepare\<close> returns a configured wrapper and raises
  no \<^verbatim>\<open>TemplateSyntaxError\<close>. The tokens are those of
  \<^verbatim>\<open>{% flatblock 'x' 60 foo 't' %}\<close> and \<^verbatim>\<open>{% flatblock 'x' 60 foo bar 't' %}\<close>.
\<close>

theorem prepare_unchecked_keywords:
  "prepare dec_int [''flatblock'', [CHR 0x27, CHR ''x'', CHR 0x27], ''60'', ''foo'',
                    [CHR 0x27, CHR ''t'', CHR 0x27]] =
     Inr \<lparr>wrapper.is_variable = False, wrapper.tpl_is_variable = False,
          wrapper.slug = ''x'', wrapper.cache_time = CT_Int 60,
          wrapper.tpl_name = Some ''t'', wrapper.evaluated = False\<rparr> \<and>
   prepare dec_int [''flatblock'', [CHR 0x27, CHR ''x'', CHR 0x27], ''60'', ''foo'', ''bar'',
                    [CHR 0x27, CHR ''t'', CHR 0x27]] =
     Inr \<lparr>wrapper.is_variable = False, wrapper.tpl_is_variable = False,
          wrapper.slug = ''x'', wrapper.cache_time = CT_Int 60,
          wrapper.tpl_name = Some ''t'', wrapper.evaluated = True\<rparr>"
  by (simp add: prepare_defs quoted_def strip_ends_def dec_int_def digit_val_def)

text \<open>
  C7. With no argument after the slug, \<open>cache_time\<close> is 0 and \<open>evaluated\<close> is false.
  With one argument, the token \<^verbatim>\<open>evaluated\<close> sets the flag and leaves \<open>cache_time\<close> at 0;
  any other token is the cache timeout and leaves the flag false: the token \<^verbatim>\<open>None\<close> is
  kept as it is, any other is converted with \<^verbatim>\<open>int\<close>, which raises \<^verbatim>\<open>ValueError\<close> when
  the token is no numeral. An empty slug token raises \<^verbatim>\<open>IndexError\<close>.
\<close>

theorem prepare_one_argument:
  "prepare conv [tag, s] =
     (if s = [] then Inl IndexError
      else Inr \<lparr>wrapper.is_variable = \<not> quoted s, wrapper.tpl_is_variable = False,
                wrapper.slug = (if quoted s then strip_ends s else s),
                wrapper.cache_time = CT_Int 0, wrapper.tpl_name = None,
                wrapper.evaluated = False\<rparr>) \<and>
   prepare conv [tag, s, a] =
     (if s = [] then Inl IndexError
      else if a = ''evaluated'' then
        Inr \<lparr>wrapper.is_variable = \<not> quoted s, wrapper.tpl_is_variable = False,
             wrapper.slug = (if quoted s then strip_ends s else s),
             wrapper.cache_time = CT_Int 0, wrapper.tpl_name = None,
             wrapper.evaluated = True\<rparr>
      else if a = ''None'' then
        Inr \<lparr>wrapper.is_variable = \<not> quoted s, wrapper.tpl_is_variable = False,
             wrapper.slug = (if quoted s then strip_ends s else s),
             wrapper.cache_time = CT_Str ''None'', wrapper.tpl_name = None,
             wrapper.evaluated = False\<rparr>
      else (case conv a of
              None \<Rightarrow> Inl ValueError
            | Some t \<Rightarrow>
                Inr \<lparr>wrapper.is_variable = \<not> quoted s, wrapper.tpl_is_variable = False,
                     wrapper.slug = (if quoted s then strip_ends s else s),
                     wrapper.cache_time = CT_Int t, wrapper.tpl_name = None,
                     wrapper.evaluated = False\<rparr>))"
  by (simp add: prepare_defs split: option.splits)

theorem prepare_one_argument_witness:
  "prepare dec_int [''flatblock'', ''x''] =
     Inr \<lparr>wrapper.is_variable = True, wrapper.tpl_is_variable = False,
          wrapper.slug = ''x'', wrapper.cache_time = CT_Int 0,
          wrapper.tpl_name = None, wrapper.evaluated = False\<rparr> \<and>
   prepare dec_int [''flatblock'', ''x'', ''evaluated''] =
     Inr \<lparr>wrapper.is_variable = True, wrapper.tpl_is_variable = False,
          wrapper.slug = ''x'', wrapper.cache_time = CT_Int 0,
          wrapper.tpl_name = None, wrapper.evaluated = True\<rparr> \<and>
   prepare dec_int [''flatblock'', ''x'', ''60''] =
     Inr \<lparr>wrapper.is_variable = True, wrapper.tpl_is_variable = False,
          wrapper.slug = ''x'', wrapper.cache_time = CT_Int 60,
          wrapper.tpl_name = None, wrapper.evaluated = False\<rparr>"
  using prepare_one_argument [of dec_int "''flatblock''" "''x''" "''evaluated''"]
    prepare_one_argument [of dec_int "''flatblock''" "''x''" "''60''"]
  by (simp add: quoted_def dec_int_def digit_val_def)

text \<open>
  C8. In a render whose names resolve, whose lookup reaches the datastore, and where the
  record is missing and not auto-created: the lookup raises \<^verbatim>\<open>DoesNotExist\<close>, \<^verbatim>\<open>render\<close>
  returns the empty string, no \<^verbatim>\<open>cache.set\<close> is issued, and the cache and the datastore
  are left as they were.
\<close>

theorem render_missing_record:
  assumes "real_slug E n c = Inr rs" and "real_template E n c = Inr rt"
    and "node.cache_time n = CT_Int 0 \<or> cache w (CACHE_PREFIX E @ rs) = None"
    and "db w rs = None"
    and "node.is_variable n \<or> \<not> AUTOCREATE_STATIC_BLOCKS E"
  shows "fst (lookup E n rs w) = Inl DoesNotExist \<and>
         fst (render E n c w) = Inr [] \<and>
         filter is_cache_set (issued w (snd (render E n c w))) = [] \<and>
         cache (snd (render E n c w)) = cache w \<and>
         db (snd (render E n c w)) = db w"
proof -
  have f: "fst (fetch E n rs w) = Inl DoesNotExist"
    using assms(4,5) by (auto simp: fetch_fst)
  have l: "fst (lookup E n rs w) = Inl DoesNotExist"
    using assms(3) f by (auto simp: lookup_fst)
  have r: "fst (render E n c w) = Inr []"
    by (simp add: render_fst [OF assms(1,2)] resolved_record_fst l)
  have s: "filter is_cache_set (issued w (snd (render E n c w))) = []"
    using assms(3) f by (auto simp: render_cache_sets [OF assms(1,2)])
  have k: "cache (snd (render E n c w)) = cache w"
    by (simp add: render_cache [OF assms(1,2)] lookup_cache_fetch_failed [OF f])
  have d: "db (snd (render E n c w)) = db w"
    using assms(3,4,5) by (auto simp: render_db [OF assms(1,2)] lookup_db fetch_db)
  from l r s k d show ?thesis by blast
qed

theorem render_missing_record_witness:
  "fst (render (demo_env False) (demo_node (CT_Int 60)) (demo_context Map.empty)
          (demo_world Map.empty Map.empty)) = Inr [] \<and>
   filter is_cache_set
     (issued (demo_world Map.empty Map.empty)
        (snd (render (demo_env False) (demo_node (CT_Int 60)) (demo_context Map.empty)
                (demo_world Map.empty Map.empty)))) = [] \<and>
   cache (snd (render (demo_env False) (demo_node (CT_Int 60)) (demo_context Map.empty)
                 (demo_world Map.empty Map.empty))) = Map.empty \<and>
   db (snd (render (demo_env False) (demo_node (CT_Int 60)) (demo_context Map.empty)
              (demo_world Map.empty Map.empty))) = Map.empty"
proof -
  let ?E = "demo_env False"
  let ?n = "demo_node (CT_Int 60)"
  let ?w = "demo_world Map.empty Map.empty"
  have rs: "real_slug ?E ?n (demo_context Map.empty) = Inr ''x''"
    by (simp add: real_slug_def demo_simps)
  have rt: "real_template ?E ?n (demo_context Map.empty) = Inr ''flatblocks/flatblock.html''"
    by (simp add: real_template_def demo_simps)
  have miss: "node.cache_time ?n = CT_Int 0 \<or> cache ?w (CACHE_PREFIX ?E @ ''x'') = None"
    by (simp add: demo_simps)
  have absent: "db ?w ''x'' = None"
    by (simp add: demo_simps)
  have plain: "node.is_variable ?n \<or> \<not> AUTOCREATE_STATIC_BLOCKS ?E"
    by (simp add: demo_simps)
  show ?thesis
    using render_missing_record [OF rs rt miss absent plain]
    by (simp add: demo_simps)
qed



text \<open>
  C10. The parser is not total. On the tag name alone \<^verbatim>\<open>prepare\<close> raises \<^verbatim>\<open>IndexError\<close>;
  the "between 1 and 5 arguments" error is raised on seven or more tokens only, so never
  on a tag without arguments. A timeout token that is neither a numeral nor \<^verbatim>\<open>None\<close>
  raises \<^verbatim>\<open>ValueError\<close> in each of the four positions where the parser reads a timeout
  (the slug and the template name being non-empty, as tokens are).
\<close>

theorem prepare_not_total:
  "prepare conv [tag] = Inl IndexError \<and>
   (prepare conv tokens = Inl (TemplateSyntaxError (ArgumentCount t)) \<longrightarrow> 7 \<le> length tokens) \<and>
   (s \<noteq> [] \<and> a \<noteq> ''None'' \<and> conv a = None \<longrightarrow>
      (a \<noteq> ''evaluated'' \<longrightarrow> prepare conv [tag, s, a] = Inl ValueError) \<and>
      (a \<noteq> ''using'' \<longrightarrow> prepare conv [tag, s, a, ''evaluated''] = Inl ValueError) \<and>
      (a \<noteq> ''evaluated'' \<and> tpl \<noteq> [] \<longrightarrow>
         prepare conv [tag, s, a, a1, tpl] = Inl ValueError) \<and>
      (tpl \<noteq> [] \<longrightarrow> prepare conv [tag, s, a, a1, a2, tpl] = Inl ValueError))"
proof -
  have 1: "prepare conv [tag] = Inl IndexError"
    by (simp add: prepare_def)
  have 2: "prepare conv tokens = Inl (TemplateSyntaxError (ArgumentCount t)) \<longrightarrow>
      7 \<le> length tokens"
    using prepare_argument_count by blast
  have 3: "s \<noteq> [] \<and> a \<noteq> ''None'' \<and> conv a = None \<longrightarrow>
      (a \<noteq> ''evaluated'' \<longrightarrow> prepare conv [tag, s, a] = Inl ValueError) \<and>
      (a \<noteq> ''using'' \<longrightarrow> prepare conv [tag, s, a, ''evaluated''] = Inl ValueError) \<and>
      (a \<noteq> ''evaluated'' \<and> tpl \<noteq> [] \<longrightarrow>
         prepare conv [tag, s, a, a1, tpl] = Inl ValueError) \<and>
      (tpl \<noteq> [] \<longrightarrow> prepare conv [tag, s, a, a1, a2, tpl] = Inl ValueError)"
    by (simp add: prepare_defs)
  from 1 2 3 show ?thesis by blast
qed

theorem prepare_not_total_witness:
  "prepare dec_int [''flatblock''] = Inl IndexError \<and>
   dec_int ''abc'' = None \<and>
   prepare dec_int [''flatblock'', ''x'', ''abc''] = Inl ValueError \<and>
   prepare dec_int [''flatblock'', ''x'', ''abc'', ''evaluated''] = Inl ValueError \<and>
   prepare dec_int [''flatblock'', ''x'', ''abc'', ''using'', ''t''] = Inl ValueError \<and>
   prepare dec_int [''flatblock'', ''x'', ''abc'', ''evaluated'', ''using'', ''t''] =
     Inl ValueError \<and>
   prepare dec_int [''flatblock'', ''x'', ''1'', ''2'', ''3'', ''4'', ''5''] =
     Inl (TemplateSyntaxError (ArgumentCount ''flatblock'')) \<and>
   7 \<le> length [''flatblock'', ''x'', ''1'', ''2'', ''3'', ''4'', ''5'']"
proof -
  have h: "dec_int ''abc'' = None"
    by (simp add: dec_int_def digit_val_def)
  have e: "prepare dec_int [''flatblock'', ''x'', ''1'', ''2'', ''3'', ''4'', ''5''] =
     Inl (TemplateSyntaxError (ArgumentCount ''flatblock''))"
    by (simp add: prepare_def and_then_def)
  show ?thesis
    using h e
      prepare_not_total [where conv = dec_int and tag = "''flatblock''"
        and tokens = "[''flatblock'', ''x'', ''1'', ''2'', ''3'', ''4'', ''5'']"
        and t = "''flatblock''" and s = "''x''" and a = "''abc''" and tpl = "''t''"
        and ?a1.0 = "''using''" and ?a2.0 = "''using''"]
      prepare_not_total [where conv = dec_int and tag = "''flatblock''"
        and tokens = "[]" and s = "''x''" and a = "''abc''" and tpl = "''t''"
        and ?a1.0 = "''evaluated''" and ?a2.0 = "''using''"]
    by simp
qed

end
